theory Spec2Isabelle
  imports Main
begin

section \<open>The declaration forms of types.d.ts\<close>

text \<open>
  The repository consists of ambient TypeScript declarations: one type alias, two
  stand-alone interfaces and six augmentations of interfaces of the DOM library.
  There are no function bodies. The embedding therefore takes the declarations as
  data, member by member, and gives them the meaning TypeScript gives them: which
  values a type admits, what reading a member yields, which event interface belongs
  to an event name. A host is an object that satisfies the declarations; what a
  script observes on it follows JavaScript's rules for reading members and calling
  them.
\<close>

datatype ts_type =
    TString
  | TBoolean
  | TVoid
  | TUndefined
  | TLiteral string
  | TUnion "ts_type list"
  | TPromise ts_type
  | TRef string
  | TMethod "(string \<times> ts_type) list" ts_type

text \<open>
  A member of an interface: its name, whether it is marked \<^verbatim>\<open>readonly\<close>, whether it
  is marked optional (\<^verbatim>\<open>?\<close>), and its type. A method signature \<^verbatim>\<open>m(x: A): R\<close> is a
  member whose type is \<open>TMethod [(x, A)] R\<close>.
\<close>

record member_decl =
  mname :: string
  mreadonly :: bool
  moptional :: bool
  mtype :: ts_type

record interface_decl =
  iname :: string
  iextends :: "string list"
  imembers :: "member_decl list"

definition property :: "string \<Rightarrow> ts_type \<Rightarrow> member_decl" where
  "property n t = \<lparr>mname = n, mreadonly = False, moptional = False, mtype = t\<rparr>"

definition optional_property :: "string \<Rightarrow> ts_type \<Rightarrow> member_decl" where
  "optional_property n t = \<lparr>mname = n, mreadonly = False, moptional = True, mtype = t\<rparr>"

definition readonly_property :: "string \<Rightarrow> ts_type \<Rightarrow> member_decl" where
  "readonly_property n t = \<lparr>mname = n, mreadonly = True, moptional = False, mtype = t\<rparr>"

definition method_signature ::
  "string \<Rightarrow> (string \<times> ts_type) list \<Rightarrow> ts_type \<Rightarrow> member_decl" where
  "method_signature n ps r = property n (TMethod ps r)"

section \<open>The declarations\<close>

text \<open>\<^verbatim>\<open>interface VolumeManager { requestUp(): void; requestDown(): void; }\<close>\<close>

definition VolumeManager :: interface_decl where
  "VolumeManager =
     \<lparr>iname = ''VolumeManager'', iextends = [],
      imembers = [method_signature ''requestUp'' [] TVoid,
                  method_signature ''requestDown'' [] TVoid]\<rparr>"

text \<open>The fourteen string literals of \<^verbatim>\<open>type CloudPhoneFeature\<close>, in source order.\<close>

definition CloudPhoneFeature_names :: "string list" where
  "CloudPhoneFeature_names =
     [''AudioCapture'', ''AudioPlay'', ''AudioSeek'', ''AudioUpload'',
      ''VideoCapture'', ''VideoSeek'', ''VideoUpload'', ''EmbeddedTextInput'',
      ''FileDownload'', ''FileUpload'', ''ImageUpload'', ''SmsScheme'',
      ''TelScheme'', ''Vibrate'']"

definition CloudPhoneFeature :: ts_type where
  "CloudPhoneFeature = TUnion (map TLiteral CloudPhoneFeature_names)"

text \<open>\<^verbatim>\<open>interface BackEvent extends Event { readonly type: "back"; }\<close>\<close>

definition BackEvent :: interface_decl where
  "BackEvent =
     \<lparr>iname = ''BackEvent'', iextends = [''Event''],
      imembers = [readonly_property ''type'' (TLiteral ''back'')]\<rparr>"

text \<open>
  The signature both navigator interfaces declare:
  \<^verbatim>\<open>hasFeature(name: CloudPhoneFeature | string): Promise<boolean>\<close>.
\<close>

definition hasFeature :: member_decl where
  "hasFeature =
     method_signature ''hasFeature'' [(''name'', TUnion [CloudPhoneFeature, TString])]
       (TPromise TBoolean)"

text \<open>
  The interfaces inside \<^verbatim>\<open>declare global\<close> are merged into the DOM library's interfaces
  of the same name; each definition lists the members this file adds.
\<close>

definition Navigator :: interface_decl where
  "Navigator =
     \<lparr>iname = ''Navigator'', iextends = [],
      imembers = [hasFeature, optional_property ''volumeManager'' (TRef ''VolumeManager'')]\<rparr>"

definition WorkerNavigator :: interface_decl where
  "WorkerNavigator =
     \<lparr>iname = ''WorkerNavigator'', iextends = [], imembers = [hasFeature]\<rparr>"

definition WindowEventMap :: interface_decl where
  "WindowEventMap =
     \<lparr>iname = ''WindowEventMap'', iextends = [],
      imembers = [property ''back'' (TRef ''BackEvent'')]\<rparr>"

definition HTMLInputElement :: interface_decl where
  "HTMLInputElement =
     \<lparr>iname = ''HTMLInputElement'', iextends = [],
      imembers = [optional_property ''x-puffin-entersfullscreen'' (TLiteral ''off'')]\<rparr>"

definition HTMLVideoElement :: interface_decl where
  "HTMLVideoElement =
     \<lparr>iname = ''HTMLVideoElement'', iextends = [],
      imembers = [optional_property ''x-puffin-playsinline'' TString,
                  property ''playsInline'' TBoolean]\<rparr>"

definition declarations :: "interface_decl list" where
  "declarations =
     [VolumeManager, BackEvent, Navigator, WorkerNavigator, WindowEventMap,
      HTMLInputElement, HTMLVideoElement]"

section \<open>Reading the declarations\<close>

definition declared :: "string \<Rightarrow> interface_decl option" where
  "declared n = find (\<lambda>i. iname i = n) declarations"

definition lookup_member :: "interface_decl \<Rightarrow> string \<Rightarrow> member_decl option" where
  "lookup_member i n = find (\<lambda>m. mname m = n) (imembers i)"

text \<open>
  The type of the expression that reads a member: an optional member of type \<open>T\<close>
  reads as \<open>T | undefined\<close>, any other member as \<open>T\<close>.
\<close>

definition read_type :: "member_decl \<Rightarrow> ts_type" where
  "read_type m = (if moptional m then TUnion [mtype m, TUndefined] else mtype m)"

text \<open>Whether a string value is admitted by a type.\<close>

fun str_inhabits :: "ts_type \<Rightarrow> string \<Rightarrow> bool" where
  "str_inhabits TString s = True"
| "str_inhabits (TLiteral l) s = (s = l)"
| "str_inhabits (TUnion ts) s = list_ex (\<lambda>t. str_inhabits t s) ts"
| "str_inhabits _ s = False"

text \<open>
  The indexed access type \<^verbatim>\<open>WindowEventMap[K]\<close>: the event interface that the
  declarations attach to the event name \<open>k\<close>. It is the parameter type of a listener
  registered under \<open>k\<close>.
\<close>

definition event_for :: "string \<Rightarrow> interface_decl option" where
  "event_for k =
     (case lookup_member WindowEventMap k of
        None \<Rightarrow> None
      | Some m \<Rightarrow> (case mtype m of TRef n \<Rightarrow> declared n | _ \<Rightarrow> None))"

text \<open>
  The values the \<^verbatim>\<open>type\<close> field of an event of interface \<open>i\<close> may hold. An interface
  that extends \<^verbatim>\<open>Event\<close> and declares the member itself narrows it to the declared
  type; one that does not declare it keeps the base interface's \<^verbatim>\<open>type: string\<close>
  (the DOM library's \<^verbatim>\<open>Event\<close> is extended by this file, not contained in it).
\<close>

definition event_type_of :: "interface_decl \<Rightarrow> string \<Rightarrow> bool" where
  "event_type_of i s =
     (case lookup_member i ''type'' of
        None \<Rightarrow> True
      | Some m \<Rightarrow> str_inhabits (mtype m) s)"

text \<open>
  A listener registered under the event name \<open>k\<close> is typed to receive the events of
  the interface \<open>event_for k\<close>: \<open>listener_receives k s\<close> says that an event whose
  \<^verbatim>\<open>type\<close> field is \<open>s\<close> is among them. Only the event names this file registers are
  covered.
\<close>

definition listener_receives :: "string \<Rightarrow> string \<Rightarrow> bool" where
  "listener_receives k s =
     (case event_for k of None \<Rightarrow> False | Some i \<Rightarrow> event_type_of i s)"



text \<open>
  The lower-case variant of a feature name (the tokens are ASCII: the letters
  \<^verbatim>\<open>A\<close> to \<^verbatim>\<open>Z\<close> are codes 65 to 90, their lower-case forms 32 higher).
\<close>

definition toLowerCase_char :: "char \<Rightarrow> char" where
  "toLowerCase_char c =
     (let n = (of_char c :: nat) in if 65 \<le> n \<and> n \<le> 90 then char_of (n + 32) else c)"

definition toLowerCase :: "string \<Rightarrow> string" where
  "toLowerCase s = map toLowerCase_char s"

section \<open>Hosts as values\<close>

text \<open>
  The values a script can hold. A function is represented by the value a call of it
  returns, a promise by how it has settled; arguments and side effects are not
  represented. An object is the list of its own members.
\<close>

datatype js_value =
    JUndefined
  | JBoolean bool
  | JString string
  | JFunction js_value
  | JFulfilled js_value
  | JRejected js_value
  | JObject "(string \<times> js_value) list"


lemma size_union_member: "t \<in> set ts \<Longrightarrow> size t < Suc (size_list size ts)"
  by (induction ts) auto

lemma size_object_member:
  "map_of ps k = Some x \<Longrightarrow> size x < Suc (size_list (size_prod (\<lambda>_. 0) size) ps)"
  by (induction ps) (auto split: if_splits)

text \<open>
  Whether a value has a type. \<^verbatim>\<open>void\<close> admits only \<^verbatim>\<open>undefined\<close>: a call of a \<^verbatim>\<open>void\<close>
  method yields no value. A promise type says what a fulfilled promise holds and
  nothing about rejection. A value has an interface type when it is an object each of
  whose declared members is either absent, if the member is optional, or holds a
  value of the member's read type; members the interface does not declare are
  allowed.
\<close>

function has_type :: "js_value \<Rightarrow> ts_type \<Rightarrow> bool" where
  "has_type v TString = (case v of JString _ \<Rightarrow> True | _ \<Rightarrow> False)"
| "has_type v TBoolean = (case v of JBoolean _ \<Rightarrow> True | _ \<Rightarrow> False)"
| "has_type v TVoid = (v = JUndefined)"
| "has_type v TUndefined = (v = JUndefined)"
| "has_type v (TLiteral l) = (v = JString l)"
| "has_type v (TUnion ts) = list_ex (has_type v) ts"
| "has_type v (TPromise t) =
     (case v of JFulfilled x \<Rightarrow> has_type x t | JRejected _ \<Rightarrow> True | _ \<Rightarrow> False)"
| "has_type v (TMethod ps r) = (case v of JFunction x \<Rightarrow> has_type x r | _ \<Rightarrow> False)"
| "has_type v (TRef n) =
     (case declared n of
        None \<Rightarrow> False
      | Some i \<Rightarrow>
          (case v of
             JObject ps \<Rightarrow>
               list_all
                 (\<lambda>m. case map_of ps (mname m) of
                        None \<Rightarrow> moptional m
                      | Some x \<Rightarrow> has_type x (read_type m))
                 (imembers i)
           | _ \<Rightarrow> False))"
  by pat_completeness auto
termination
  by (relation "measures [\<lambda>(v, t). size v, \<lambda>(v, t). size t]")
    (auto dest: size_object_member size_union_member)








section \<open>Facts about the declarations\<close>

lemma declared_BackEvent: "declared ''BackEvent'' = Some BackEvent"
  by (simp add: declared_def declarations_def VolumeManager_def BackEvent_def)

lemma event_for_back: "event_for ''back'' = Some BackEvent"
  by (simp add: event_for_def lookup_member_def WindowEventMap_def property_def
      declared_BackEvent)

lemma event_type_of_BackEvent: "event_type_of BackEvent s \<longleftrightarrow> s = ''back''"
  by (simp add: event_type_of_def lookup_member_def BackEvent_def readonly_property_def)

text \<open>
  C10. Every back event carries the type discriminator \<^verbatim>\<open>"back"\<close>: the \<^verbatim>\<open>type\<close> member
  of \<open>BackEvent\<close> is read-only and of the literal type \<^verbatim>\<open>"back"\<close>, so the \<^verbatim>\<open>type\<close> field
  of a back event holds \<^verbatim>\<open>"back"\<close> and nothing else. The discriminator is the name under
  which the window event map registers the interface, so the events a listener
  registered for \<^verbatim>\<open>"back"\<close> is typed to receive are exactly the events whose \<^verbatim>\<open>type\<close>
  field is \<^verbatim>\<open>"back"\<close>.
\<close>

theorem back_event_type_discriminator:
  "lookup_member BackEvent ''type'' = Some (readonly_property ''type'' (TLiteral ''back''))
   \<and> (event_type_of BackEvent s \<longleftrightarrow> s = ''back'')
   \<and> lookup_member WindowEventMap ''back'' = Some (property ''back'' (TRef ''BackEvent''))
   \<and> event_for ''back'' = Some BackEvent
   \<and> (listener_receives ''back'' s \<longleftrightarrow> s = ''back'')"
proof -
  have
    "lookup_member BackEvent ''type'' = Some (readonly_property ''type'' (TLiteral ''back''))"
    by (simp add: lookup_member_def BackEvent_def readonly_property_def)
  moreover have
    "lookup_member WindowEventMap ''back'' = Some (property ''back'' (TRef ''BackEvent''))"
    by (simp add: lookup_member_def WindowEventMap_def property_def)
  moreover have "listener_receives ''back'' s \<longleftrightarrow> s = ''back''"
    by (simp add: listener_receives_def event_for_back event_type_of_BackEvent)
  ultimately show ?thesis
    by (simp add: event_type_of_BackEvent event_for_back)
qed

theorem back_event_type_discriminator_witness:
  "event_type_of BackEvent ''back''
   \<and> listener_receives ''back'' ''back''
   \<and> \<not> listener_receives ''back'' ''click''"
  using back_event_type_discriminator [of "''back''"]
    back_event_type_discriminator [of "''click''"]
  by simp

subsection \<open>The feature query's signature\<close>

text \<open>
  What the declarations fix about \<^verbatim>\<open>hasFeature\<close>: both navigator interfaces declare the
  same signature, its parameter admits every string, the alias \<open>CloudPhoneFeature\<close>
  admits the fourteen tokens and nothing else, and no lower-case variant of a token
  is itself a token. What the promise settles to is decided by the runtime that
  implements the method, of which the repository holds no code.
\<close>

lemma hasFeature_declared_on_both_navigators:
  "lookup_member Navigator ''hasFeature'' = Some hasFeature
   \<and> lookup_member WorkerNavigator ''hasFeature'' = Some hasFeature"
  by (simp add: lookup_member_def Navigator_def WorkerNavigator_def hasFeature_def
      method_signature_def property_def)

lemma hasFeature_parameter_admits_every_string:
  "mtype hasFeature = TMethod [(n, t)] r \<Longrightarrow> str_inhabits t s"
  by (auto simp: hasFeature_def method_signature_def property_def)

lemma str_inhabits_CloudPhoneFeature:
  "str_inhabits CloudPhoneFeature s \<longleftrightarrow> s \<in> set CloudPhoneFeature_names"
  by (simp add: CloudPhoneFeature_def list_ex_iff)

lemma toLowerCase_CloudPhoneFeature_names:
  "map toLowerCase CloudPhoneFeature_names =
     [''audiocapture'', ''audioplay'', ''audioseek'', ''audioupload'',
      ''videocapture'', ''videoseek'', ''videoupload'', ''embeddedtextinput'',
      ''filedownload'', ''fileupload'', ''imageupload'', ''smsscheme'',
      ''telscheme'', ''vibrate'']"
  by code_simp

lemma lower_case_variants_are_not_tokens:
  "list_all (\<lambda>t. toLowerCase t \<noteq> t \<and> \<not> str_inhabits CloudPhoneFeature (toLowerCase t))
     CloudPhoneFeature_names"
  unfolding str_inhabits_CloudPhoneFeature list_all_iff
  using toLowerCase_CloudPhoneFeature_names
  by (simp add: CloudPhoneFeature_names_def)

subsection \<open>The volume controller\<close>


lemma declared_Navigator: "declared ''Navigator'' = Some Navigator"
  by (simp add: declared_def declarations_def VolumeManager_def BackEvent_def Navigator_def)


lemma has_type_Navigator:
  "has_type nav (TRef ''Navigator'') \<longleftrightarrow>
     (\<exists>ps. nav = JObject ps
        \<and> (case map_of ps ''hasFeature'' of
              None \<Rightarrow> False
            | Some f \<Rightarrow> has_type f (mtype hasFeature))
        \<and> (case map_of ps ''volumeManager'' of
              None \<Rightarrow> True
            | Some vm \<Rightarrow> vm = JUndefined \<or> has_type vm (TRef ''VolumeManager'')))"
  by (auto simp: declared_Navigator Navigator_def hasFeature_def method_signature_def
      property_def optional_property_def read_type_def
      split: js_value.splits option.splits)







subsection \<open>What the declarations leave open\<close>

text \<open>
  A host whose feature query returns a rejected promise satisfies the declaration of
  \<open>Navigator\<close> as well: the type \<^verbatim>\<open>Promise<boolean>\<close> does not say how the promise
  settles.
\<close>

lemma rejecting_host_is_Navigator:
  "has_type (JObject [(''hasFeature'', JFunction (JRejected JUndefined))]) (TRef ''Navigator'')"
  unfolding has_type_Navigator
  by (simp add: hasFeature_def method_signature_def property_def)

end
